theory Spec2Isabelle
  imports Complex_Main
begin

section \<open>Values, errors and the request context\<close>

text \<open>
  The exceptions that the serializers of \<^verbatim>\<open>users/serializers.py\<close> can meet. A function that
  may raise returns \<open>error + 'a\<close>, with \<open>Inl\<close> for the exception.
\<close>

datatype error =
    ObjectDoesNotExist
  | MultipleObjectsReturned
  | ValueError
  | TypeError
  | KeyError string

text \<open>
  JSON-compatible values: what \<^verbatim>\<open>json.loads\<close> returns and what a serializer emits.
  Python's \<^verbatim>\<open>None\<close> is \<open>JNull\<close>; a \<^verbatim>\<open>dict\<close> is the list of its items.
\<close>

datatype json =
    JNull
  | JBool bool
  | JNumber real
  | JString string
  | JArray "json list"
  | JObject "(string \<times> json) list"

text \<open>The request carries the query parameters; the context is the serializer's
  \<^verbatim>\<open>self.context\<close> dict, of which the code reads three keys.\<close>

record request =
  query_params :: "string \<rightharpoonup> string"

record "context" =
  request :: "request option"
  default_fields :: "string option"
  course_id :: "string option"

section \<open>Strings: \<^verbatim>\<open>str.split\<close>, \<^verbatim>\<open>str.join\<close> and truthiness\<close>

text \<open>\<^verbatim>\<open>s.split(sep)\<close> for a one-character separator: the pieces between the separators,
  empty pieces kept, at least one piece.\<close>

fun split :: "char \<Rightarrow> string \<Rightarrow> string list" where
  "split sep [] = [[]]"
| "split sep (c # cs) =
     (if c = sep then [] # split sep cs
      else (case split sep cs of
              [] \<Rightarrow> [[c]]
            | p # ps \<Rightarrow> (c # p) # ps))"

text \<open>\<^verbatim>\<open>sep.join(parts)\<close>.\<close>

fun join :: "string \<Rightarrow> string list \<Rightarrow> string" where
  "join sep [] = []"
| "join sep [p] = p"
| "join sep (p # q # ps) = p @ sep @ join sep (q # ps)"

text \<open>Python's truth value of an optional string: \<^verbatim>\<open>None\<close> and \<^verbatim>\<open>''\<close> are false.\<close>

fun truthy :: "string option \<Rightarrow> bool" where
  "truthy None = False"
| "truthy (Some s) = (s \<noteq> [])"

section \<open>\<^verbatim>\<open>DynamicFieldsModelSerializer.__init__\<close>\<close>

text \<open>
  \<^verbatim>\<open>self.fields\<close> is an ordered dict from field names to fields; it is held as the list of
  its items. \<^verbatim>\<open>self.fields.pop(name)\<close> removes the entry and raises \<^verbatim>\<open>KeyError\<close> when there
  is none.
\<close>

definition pop :: "string \<Rightarrow> (string \<times> 'f) list \<Rightarrow> error + (string \<times> 'f) list" where
  "pop field_name self_fields =
     (if field_name \<in> fst ` set self_fields
      then Inr (filter (\<lambda>(n, _). n \<noteq> field_name) self_fields)
      else Inl (KeyError field_name))"

text \<open>The loop \<^verbatim>\<open>for field_name in existing - allowed: self.fields.pop(field_name)\<close>, over
  the names in the order given.\<close>

fun pop_all :: "string list \<Rightarrow> (string \<times> 'f) list \<Rightarrow> error + (string \<times> 'f) list" where
  "pop_all [] self_fields = Inr self_fields"
| "pop_all (field_name # rest) self_fields =
     (case pop field_name self_fields of
        Inl e \<Rightarrow> Inl e
      | Inr self_fields' \<Rightarrow> pop_all rest self_fields')"

text \<open>
  Lines 25 to 28: the value of the local \<^verbatim>\<open>fields\<close> before the test \<^verbatim>\<open>if fields:\<close>. The
  \<^verbatim>\<open>fields\<close> query parameter is taken when it is there and not empty; otherwise, when the
  context has \<^verbatim>\<open>default_fields\<close>, the selection is that string and the
  \<^verbatim>\<open>additional_fields\<close> query parameter (default \<^verbatim>\<open>""\<close>) joined by a comma.
\<close>

definition selection :: "context \<Rightarrow> request \<Rightarrow> string option" where
  "selection ctx req =
     (let fields_param = query_params req ''fields'' in
      if \<not> truthy fields_param then
        (case default_fields ctx of
           None \<Rightarrow> fields_param
         | Some dflt \<Rightarrow>
             (let additional_fields =
                    (case query_params req ''additional_fields'' of
                       None \<Rightarrow> []
                     | Some a \<Rightarrow> a)
              in Some (join '','' [dflt, additional_fields])))
      else fields_param)"

text \<open>
  \<^verbatim>\<open>__init__\<close>, after the superclass has built the declared fields: the fields that remain.
  The set difference \<^verbatim>\<open>existing - allowed\<close> is walked in the order of the declared fields
  (a Python set has no order of its own; every name of it is popped once).
\<close>

definition init :: "context \<Rightarrow> (string \<times> 'f) list \<Rightarrow> error + (string \<times> 'f) list" where
  "init ctx declared =
     (case request ctx of
        None \<Rightarrow> Inr declared
      | Some req \<Rightarrow>
          (case selection ctx req of
             None \<Rightarrow> Inr declared
           | Some sel \<Rightarrow>
               if sel \<noteq> [] then
                 (let allowed = set (split CHR '','' sel);
                      existing = remdups (map fst declared)
                  in pop_all (filter (\<lambda>n. n \<notin> allowed) existing) declared)
               else Inr declared))"

section \<open>Records of the data layer\<close>

text \<open>
  The rows that the serializers read. A timestamp is held in the ISO-8601 text that the
  response shows. \<open>user_id\<close> is the column \<^verbatim>\<open>id\<close> of the user. A user has no profile row or
  one; \<^verbatim>\<open>courses_enrolled\<close> is the attribute
  that a view may attach to the in-memory user (absent: \<open>None\<close>), and
  \<^verbatim>\<open>courseenrollment_set\<close> the user's enrollment rows. The organizations are held as
  \<^verbatim>\<open>BasicOrganizationSerializer\<close> (of another package) renders them.
\<close>

type_synonym datetime = string

record profile =
  city :: "string option"
  title :: "string option"
  country :: "string option"
  name :: "string option"
  profile_image_uploaded_at :: "datetime option"

record course_enrollment =
  ce_course_id :: string
  ce_is_active :: bool

record user =
  user_id :: int
  email :: string
  username :: string
  first_name :: string
  last_name :: string
  date_joined :: datetime
  is_active :: bool
  is_staff :: bool
  last_login :: "datetime option"
  profile :: "profile option"
  organizations :: "json list"
  courses_enrolled :: "int option"
  courseenrollment_set :: "course_enrollment list"

text \<open>\<^verbatim>\<open>CourseAccessRole\<close>: one row per role assignment, many rows per user.\<close>

record course_access_role =
  car_user :: int
  car_course_id :: string
  car_role :: string

text \<open>\<^verbatim>\<open>StudentGradebook\<close>: the grade, the proforma grade and the breakdown, serialized
  as JSON text, of a user in a course.\<close>

record student_gradebook =
  gb_user :: int
  gb_course_id :: string
  gb_grade :: real
  gb_proforma_grade :: real
  gb_grade_summary :: string

record db =
  course_access_roles :: "course_access_role list"
  student_gradebooks :: "student_gradebook list"

text \<open>Django's accessor \<^verbatim>\<open>user.profile\<close> of the one-to-one relation raises
  \<^verbatim>\<open>ObjectDoesNotExist\<close> when the user has no profile row.\<close>

definition user_profile :: "user \<Rightarrow> error + profile" where
  "user_profile u =
     (case profile u of
        None \<Rightarrow> Inl ObjectDoesNotExist
      | Some p \<Rightarrow> Inr p)"

text \<open>\<^verbatim>\<open>Model.objects.get(user=user, course_id=course_id)\<close>: the one matching row;
  \<^verbatim>\<open>ObjectDoesNotExist\<close> when there is none, \<^verbatim>\<open>MultipleObjectsReturned\<close> when there are
  several.\<close>

definition objects_get :: "student_gradebook list \<Rightarrow> user \<Rightarrow> string \<Rightarrow> error + student_gradebook" where
  "objects_get rows u cid =
     (case filter (\<lambda>r. gb_user r = user_id u \<and> gb_course_id r = cid) rows of
        [] \<Rightarrow> Inl ObjectDoesNotExist
      | [r] \<Rightarrow> Inr r
      | _ \<Rightarrow> Inl MultipleObjectsReturned)"

section \<open>Python operators on parsed JSON\<close>

text \<open>\<^verbatim>\<open>s.startswith(k)\<close> and \<^verbatim>\<open>k in s\<close> on strings.\<close>

fun startswith :: "string \<Rightarrow> string \<Rightarrow> bool" where
  "startswith s [] = True"
| "startswith [] (k # ks) = False"
| "startswith (c # cs) (k # ks) = (c = k \<and> startswith cs ks)"

fun substring :: "string \<Rightarrow> string \<Rightarrow> bool" where
  "substring k [] = (k = [])"
| "substring k (c # cs) = (startswith (c # cs) k \<or> substring k cs)"

text \<open>
  \<^verbatim>\<open>k in v\<close> for a string \<open>k\<close> and a value \<open>v\<close> that \<^verbatim>\<open>json.loads\<close> returned: a key of a
  dict, an element of a list, a substring of a string; numbers, booleans and \<^verbatim>\<open>None\<close> are
  not iterable and raise \<^verbatim>\<open>TypeError\<close>.
\<close>

fun contains :: "string \<Rightarrow> json \<Rightarrow> error + bool" where
  "contains k (JObject items) = Inr (k \<in> fst ` set items)"
| "contains k (JArray xs) = Inr (JString k \<in> set xs)"
| "contains k (JString s) = Inr (substring k s)"
| "contains k JNull = Inl TypeError"
| "contains k (JBool b) = Inl TypeError"
| "contains k (JNumber x) = Inl TypeError"

text \<open>\<^verbatim>\<open>v[k]\<close> for a string \<open>k\<close>: the value under the key of a dict (\<^verbatim>\<open>KeyError\<close> without
  it); every other value raises \<^verbatim>\<open>TypeError\<close> on a string index.\<close>

fun getitem :: "json \<Rightarrow> string \<Rightarrow> error + json" where
  "getitem (JObject items) k =
     (case map_of items k of
        None \<Rightarrow> Inl (KeyError k)
      | Some v \<Rightarrow> Inr v)"
| "getitem (JArray xs) k = Inl TypeError"
| "getitem (JString s) k = Inl TypeError"
| "getitem JNull k = Inl TypeError"
| "getitem (JBool b) k = Inl TypeError"
| "getitem (JNumber x) k = Inl TypeError"

section \<open>The methods of \<^verbatim>\<open>UserSerializer\<close>\<close>

text \<open>
  Modelled from the spec: \<^verbatim>\<open>get_profile_image_urls_by_username\<close> of
  \<^verbatim>\<open>edx_solutions_api_integration.utils\<close> is not among the sources. The spec describes it as
  a helper keyed by the username and an optional upload timestamp, and has the profile
  image of a user without a profile be null, where the code passes a null timestamp: the
  helper gives null for a null timestamp. What it builds from a timestamp is the
  parameter \<open>image_urls\<close>.
\<close>

definition get_profile_image_urls_by_username ::
    "(string \<Rightarrow> datetime \<Rightarrow> json) \<Rightarrow> string \<Rightarrow> datetime option \<Rightarrow> json" where
  "get_profile_image_urls_by_username image_urls uname uploaded_at =
     (case uploaded_at of
        None \<Rightarrow> JNull
      | Some t \<Rightarrow> image_urls uname t)"

text \<open>\<^verbatim>\<open>get_profile_image\<close>: the \<^verbatim>\<open>try\<close> reads \<^verbatim>\<open>user.profile.profile_image_uploaded_at\<close>,
  and \<^verbatim>\<open>ObjectDoesNotExist\<close> alone is caught.\<close>

definition get_profile_image :: "(string \<Rightarrow> datetime \<Rightarrow> json) \<Rightarrow> user \<Rightarrow> error + json" where
  "get_profile_image image_urls u =
     (case user_profile u of
        Inr p \<Rightarrow>
          Inr (get_profile_image_urls_by_username image_urls (username u)
                 (profile_image_uploaded_at p))
      | Inl e \<Rightarrow>
          if e = ObjectDoesNotExist
          then Inr (get_profile_image_urls_by_username image_urls (username u) None)
          else Inl e)"

text \<open>\<^verbatim>\<open>get_courses_enrolled\<close>: the attached attribute when \<^verbatim>\<open>hasattr\<close> finds it, the count
  of the enrollment rows otherwise.\<close>

definition get_courses_enrolled :: "user \<Rightarrow> int" where
  "get_courses_enrolled u =
     (case courses_enrolled u of
        Some n \<Rightarrow> n
      | None \<Rightarrow> int (length (courseenrollment_set u)))"

text \<open>\<^verbatim>\<open>get_user_roles\<close>: the rows of the user, narrowed to the course of the context when
  it has one; the distinct values of their \<^verbatim>\<open>role\<close> column.\<close>

definition get_user_roles :: "db \<Rightarrow> context \<Rightarrow> user \<Rightarrow> string list" where
  "get_user_roles d ctx u =
     (let queryset = filter (\<lambda>r. car_user r = user_id u) (course_access_roles d);
          queryset' = (case course_id ctx of
                         None \<Rightarrow> queryset
                       | Some cid \<Rightarrow> filter (\<lambda>r. car_course_id r = cid) queryset)
      in remdups (map car_role queryset'))"

text \<open>The three locals of \<^verbatim>\<open>get_user_grades\<close>, and the dict that it returns from them.\<close>

record grade_locals =
  grade :: json
  proforma_grade :: json
  section_breakdown :: json

definition grades_dict :: "grade_locals \<Rightarrow> (string \<times> json) list" where
  "grades_dict l =
     [(''grade'', grade l),
      (''proforma_grade'', proforma_grade l),
      (''section_breakdown'', section_breakdown l)]"

text \<open>
  The body of the \<^verbatim>\<open>try\<close> (lines 84 to 89), run on the locals: the exception that left it,
  if any, and the locals as they are then. The two grades are assigned before the
  breakdown is parsed. \<open>json_loads\<close> stands for \<^verbatim>\<open>json.loads\<close>.
\<close>

definition try_body ::
    "(string \<Rightarrow> error + json) \<Rightarrow> db \<Rightarrow> user \<Rightarrow> string \<Rightarrow> grade_locals
       \<Rightarrow> error option \<times> grade_locals" where
  "try_body json_loads d u cid l =
     (case objects_get (student_gradebooks d) u cid of
        Inl e \<Rightarrow> (Some e, l)
      | Inr gradebook \<Rightarrow>
          (let l1 = l\<lparr>grade := JNumber (gb_grade gradebook)\<rparr>;
               l2 = l1\<lparr>proforma_grade := JNumber (gb_proforma_grade gradebook)\<rparr>
           in case json_loads (gb_grade_summary gradebook) of
                Inl e \<Rightarrow> (Some e, l2)
              | Inr grade_summary \<Rightarrow>
                  (case contains ''section_breakdown'' grade_summary of
                     Inl e \<Rightarrow> (Some e, l2)
                   | Inr found \<Rightarrow>
                       if found then
                         (case getitem grade_summary ''section_breakdown'' of
                            Inl e \<Rightarrow> (Some e, l2)
                          | Inr v \<Rightarrow> (None, l2\<lparr>section_breakdown := v\<rparr>))
                       else (None, l2))))"

text \<open>\<^verbatim>\<open>get_user_grades\<close>: the \<^verbatim>\<open>except\<close> clause passes on \<^verbatim>\<open>ObjectDoesNotExist\<close> and
  \<^verbatim>\<open>ValueError\<close>; any other exception leaves the method.\<close>

definition get_user_grades ::
    "(string \<Rightarrow> error + json) \<Rightarrow> db \<Rightarrow> context \<Rightarrow> user \<Rightarrow> error + (string \<times> json) list" where
  "get_user_grades json_loads d ctx u =
     (let l0 = \<lparr>grade = JNull, proforma_grade = JNull, section_breakdown = JNull\<rparr> in
      case course_id ctx of
        None \<Rightarrow> Inr (grades_dict l0)
      | Some cid \<Rightarrow>
          (case try_body json_loads d u cid l0 of
             (None, l) \<Rightarrow> Inr (grades_dict l)
           | (Some e, l) \<Rightarrow>
               if e = ObjectDoesNotExist \<or> e = ValueError
               then Inr (grades_dict l)
               else Inl e))"

section \<open>The serializers\<close>

text \<open>
  A declared field is held as the function that gives its output value for a record. For
  a field with the source \<^verbatim>\<open>profile.attr\<close>, rest_framework walks the attributes of the source
  and gives \<^verbatim>\<open>None\<close> when one of them raises \<^verbatim>\<open>ObjectDoesNotExist\<close>; a \<^verbatim>\<open>None\<close> attribute
  is emitted as null.
\<close>

type_synonym 'i field = "'i \<Rightarrow> error + json"

definition profile_source :: "(profile \<Rightarrow> string option) \<Rightarrow> user field" where
  "profile_source attr u =
     (case user_profile u of
        Inr p \<Rightarrow> Inr (case attr p of None \<Rightarrow> JNull | Some s \<Rightarrow> JString s)
      | Inl e \<Rightarrow> if e = ObjectDoesNotExist then Inr JNull else Inl e)"

text \<open>\<^verbatim>\<open>UserSerializer\<close>: the fields of \<^verbatim>\<open>Meta.fields\<close>, in that order. The method fields
  call the methods above; \<^verbatim>\<open>created\<close> has the source \<^verbatim>\<open>date_joined\<close>.\<close>

definition UserSerializer_fields ::
    "(string \<Rightarrow> error + json) \<Rightarrow> (string \<Rightarrow> datetime \<Rightarrow> json) \<Rightarrow> db \<Rightarrow> context
       \<Rightarrow> (string \<times> user field) list" where
  "UserSerializer_fields json_loads image_urls d ctx =
     [(''id'', \<lambda>u. Inr (JNumber (of_int (user_id u)))),
      (''email'', \<lambda>u. Inr (JString (email u))),
      (''username'', \<lambda>u. Inr (JString (username u))),
      (''first_name'', \<lambda>u. Inr (JString (first_name u))),
      (''last_name'', \<lambda>u. Inr (JString (last_name u))),
      (''created'', \<lambda>u. Inr (JString (date_joined u))),
      (''is_active'', \<lambda>u. Inr (JBool (is_active u))),
      (''profile_image'', get_profile_image image_urls),
      (''city'', profile_source city),
      (''title'', profile_source title),
      (''country'', profile_source country),
      (''full_name'', profile_source name),
      (''is_staff'', \<lambda>u. Inr (JBool (is_staff u))),
      (''last_login'', \<lambda>u. Inr (case last_login u of None \<Rightarrow> JNull | Some t \<Rightarrow> JString t)),
      (''courses_enrolled'', \<lambda>u. Inr (JNumber (of_int (get_courses_enrolled u)))),
      (''organizations'', \<lambda>u. Inr (JArray (organizations u))),
      (''roles'', \<lambda>u. Inr (JArray (map JString (get_user_roles d ctx u)))),
      (''grades'', \<lambda>u. case get_user_grades json_loads d ctx u of
                           Inl e \<Rightarrow> Inl e
                         | Inr g \<Rightarrow> Inr (JObject g))]"

text \<open>\<^verbatim>\<open>SimpleUserSerializer\<close>.\<close>

definition SimpleUserSerializer_fields :: "(string \<times> user field) list" where
  "SimpleUserSerializer_fields =
     [(''id'', \<lambda>u. Inr (JNumber (of_int (user_id u)))),
      (''email'', \<lambda>u. Inr (JString (email u))),
      (''username'', \<lambda>u. Inr (JString (username u))),
      (''first_name'', \<lambda>u. Inr (JString (first_name u))),
      (''last_name'', \<lambda>u. Inr (JString (last_name u))),
      (''created'', \<lambda>u. Inr (JString (date_joined u))),
      (''is_active'', \<lambda>u. Inr (JBool (is_active u)))]"

text \<open>rest_framework's \<^verbatim>\<open>to_representation\<close>: one entry for each field of \<^verbatim>\<open>self.fields\<close>, in
  their order; an exception of a field leaves the serialization.\<close>

fun to_representation :: "(string \<times> 'i field) list \<Rightarrow> 'i \<Rightarrow> error + (string \<times> json) list" where
  "to_representation [] obj = Inr []"
| "to_representation ((field_name, f) # rest) obj =
     (case f obj of
        Inl e \<Rightarrow> Inl e
      | Inr v \<Rightarrow>
          (case to_representation rest obj of
             Inl e \<Rightarrow> Inl e
           | Inr ret \<Rightarrow> Inr ((field_name, v) # ret)))"

text \<open>The output mapping of a dynamic-fields serializer built with a context for a record:
  \<^verbatim>\<open>__init__\<close>, then \<^verbatim>\<open>to_representation\<close> over the fields that remain.\<close>

definition serializer_data ::
    "context \<Rightarrow> (string \<times> 'i field) list \<Rightarrow> 'i \<Rightarrow> error + (string \<times> json) list" where
  "serializer_data ctx declared obj =
     (case init ctx declared of
        Inl e \<Rightarrow> Inl e
      | Inr self_fields \<Rightarrow> to_representation self_fields obj)"

section \<open>Example data\<close>

text \<open>A user without a profile and with two enrollments, a user with a profile, role and
  gradebook rows, and \<^verbatim>\<open>json.loads\<close> on the five breakdown texts of these rows: four parse,
  and \<^verbatim>\<open>{not json\<close> raises \<^verbatim>\<open>ValueError\<close>. The table is applied to no other text.\<close>

definition alice :: user where
  "alice = \<lparr>user_id = 1, email = ''alice@example.com'', username = ''alice'',
     first_name = ''Alice'', last_name = ''A'', date_joined = ''2015-01-01T00:00:00Z'',
     is_active = True, is_staff = False, last_login = None, profile = None,
     organizations = [], courses_enrolled = None,
     courseenrollment_set =
       [\<lparr>ce_course_id = ''c1'', ce_is_active = True\<rparr>,
        \<lparr>ce_course_id = ''c2'', ce_is_active = True\<rparr>]\<rparr>"

definition bob :: user where
  "bob = \<lparr>user_id = 2, email = ''bob@example.com'', username = ''bob'',
     first_name = ''Bob'', last_name = ''B'', date_joined = ''2015-02-01T00:00:00Z'',
     is_active = True, is_staff = False, last_login = Some ''2015-03-01T00:00:00Z'',
     profile = Some \<lparr>city = Some ''Lahore'', title = None, country = Some ''PK'',
       name = Some ''Bob B'', profile_image_uploaded_at = None\<rparr>,
     organizations = [], courses_enrolled = Some 7,
     courseenrollment_set = [\<lparr>ce_course_id = ''c1'', ce_is_active = True\<rparr>]\<rparr>"

definition example_loads :: "string \<Rightarrow> error + json" where
  "example_loads s =
     (if s = ''{\"section_breakdown\": [1]}''
        then Inr (JObject [(''section_breakdown'', JArray [JNumber 1])])
      else if s = ''{\"totaled_scores\": {}}'' then Inr (JObject [(''totaled_scores'', JObject [])])
      else if s = ''null'' then Inr JNull
      else if s = ''5'' then Inr (JNumber 5)
      else Inl ValueError)"

definition example_db :: db where
  "example_db = \<lparr>
     course_access_roles =
       [\<lparr>car_user = 1, car_course_id = ''c1'', car_role = ''staff''\<rparr>,
        \<lparr>car_user = 1, car_course_id = ''c2'', car_role = ''staff''\<rparr>,
        \<lparr>car_user = 1, car_course_id = ''c2'', car_role = ''instructor''\<rparr>,
        \<lparr>car_user = 2, car_course_id = ''c1'', car_role = ''observer''\<rparr>],
     student_gradebooks =
       [\<lparr>gb_user = 1, gb_course_id = ''c1'', gb_grade = 0.9, gb_proforma_grade = 0.8,
         gb_grade_summary = ''{not json''\<rparr>,
        \<lparr>gb_user = 1, gb_course_id = ''c2'', gb_grade = 0.5, gb_proforma_grade = 0.4,
         gb_grade_summary = ''{\"totaled_scores\": {}}''\<rparr>,
        \<lparr>gb_user = 1, gb_course_id = ''c3'', gb_grade = 0.7, gb_proforma_grade = 0.6,
         gb_grade_summary = ''null''\<rparr>,
        \<lparr>gb_user = 1, gb_course_id = ''c4'', gb_grade = 0.6, gb_proforma_grade = 0.5,
         gb_grade_summary = ''5''\<rparr>,
        \<lparr>gb_user = 2, gb_course_id = ''c1'', gb_grade = 0.3, gb_proforma_grade = 0.2,
         gb_grade_summary = ''{\"section_breakdown\": [1]}''\<rparr>]\<rparr>"

definition example_image_urls :: "string \<Rightarrow> datetime \<Rightarrow> json" where
  "example_image_urls uname t = JString (''/images/'' @ uname @ ''?v='' @ t)"

text \<open>Contexts: a request with the given query parameters, and the other two keys.\<close>

definition ctx_of :: "(string \<times> string) list \<Rightarrow> string option \<Rightarrow> string option \<Rightarrow> context" where
  "ctx_of params dflt cid =
     \<lparr>request = Some \<lparr>query_params = map_of params\<rparr>, default_fields = dflt, course_id = cid\<rparr>"

definition ctx_without_request :: "string option \<Rightarrow> string option \<Rightarrow> context" where
  "ctx_without_request dflt cid = \<lparr>request = None, default_fields = dflt, course_id = cid\<rparr>"

section \<open>Field selection: helper facts\<close>

lemma pop_all_distinct:
  "distinct ks \<Longrightarrow> set ks \<subseteq> fst ` set fs \<Longrightarrow>
   pop_all ks fs = Inr (filter (\<lambda>(n, _). n \<notin> set ks) fs)"
proof (induction ks arbitrary: fs)
  case Nil
  then show ?case by simp
next
  case (Cons k ks)
  let ?fs' = "filter (\<lambda>(n, _). n \<noteq> k) fs"
  from Cons.prems have k: "k \<in> fst ` set fs" and nk: "k \<notin> set ks"
    and d: "distinct ks" and sub: "set ks \<subseteq> fst ` set fs"
    by auto
  have "set ks \<subseteq> fst ` set ?fs'"
  proof
    fix x assume x: "x \<in> set ks"
    with sub obtain v where "(x, v) \<in> set fs" by force
    moreover from x nk have "x \<noteq> k" by auto
    ultimately have "(x, v) \<in> set ?fs'" by simp
    then show "x \<in> fst ` set ?fs'" by force
  qed
  with d have "pop_all ks ?fs' = Inr (filter (\<lambda>(n, _). n \<notin> set ks) ?fs')"
    by (rule Cons.IH)
  moreover have "filter (\<lambda>(n, _). n \<notin> set ks) ?fs'
                 = filter (\<lambda>(n, _). n \<notin> set (k # ks)) fs"
    by (induction fs) auto
  ultimately show ?case using k by (simp add: pop_def)
qed

lemma init_selected:
  assumes "request ctx = Some req" and "selection ctx req = Some sel" and "sel \<noteq> []"
  shows "init ctx declared
         = Inr (filter (\<lambda>(n, _). n \<in> set (split CHR '','' sel)) declared)"
proof -
  let ?allowed = "set (split CHR '','' sel)"
  let ?ks = "filter (\<lambda>n. n \<notin> ?allowed) (remdups (map fst declared))"
  have "distinct ?ks" by simp
  moreover have "set ?ks \<subseteq> fst ` set declared" by auto
  ultimately have "pop_all ?ks declared = Inr (filter (\<lambda>(n, _). n \<notin> set ?ks) declared)"
    by (rule pop_all_distinct)
  moreover have "filter (\<lambda>(n, _). n \<notin> set ?ks) declared
                 = filter (\<lambda>(n, _). n \<in> ?allowed) declared"
    by (rule filter_cong) force+
  ultimately show ?thesis using assms by (simp add: init_def)
qed

lemma init_cases:
  "init ctx declared = Inr declared \<or>
   (\<exists>req sel. request ctx = Some req \<and> selection ctx req = Some sel \<and> sel \<noteq> [] \<and>
      init ctx declared
        = Inr (filter (\<lambda>(n, _). n \<in> set (split CHR '','' sel)) declared))"
proof (cases "request ctx")
  case None
  then show ?thesis by (simp add: init_def)
next
  case (Some req)
  show ?thesis
  proof (cases "selection ctx req")
    case None
    with Some show ?thesis by (simp add: init_def)
  next
    case (Some sel)
    show ?thesis
    proof (cases "sel = []")
      case True
      with Some \<open>request ctx = Some req\<close> show ?thesis by (simp add: init_def)
    next
      case False
      with Some \<open>request ctx = Some req\<close> init_selected show ?thesis by blast
    qed
  qed
qed

lemma init_keys_subset:
  "\<exists>fs. init ctx declared = Inr fs \<and> set fs \<subseteq> set declared"
  using init_cases [of ctx declared] by auto

lemma selection_none:
  "query_params req ''fields'' = None \<Longrightarrow> default_fields ctx = None \<Longrightarrow>
   selection ctx req = None"
  by (simp add: selection_def)

lemma init_no_selection:
  "request ctx = None \<or>
   (\<exists>req. request ctx = Some req \<and> query_params req ''fields'' = None \<and>
      default_fields ctx = None)
   \<Longrightarrow> init ctx declared = Inr declared"
  by (auto simp: init_def selection_none)

lemma selection_default:
  assumes "\<not> truthy (query_params req ''fields'')" and "default_fields ctx = Some dflt"
  shows "selection ctx req =
           Some (join '','' [dflt, case query_params req ''additional_fields'' of
                                     None \<Rightarrow> [] | Some a \<Rightarrow> a])"
  using assms by (simp add: selection_def)

lemma init_fields_param:
  assumes "request ctx = Some req" and "query_params req ''fields'' = Some f" and "f \<noteq> []"
  shows "init ctx declared = Inr (filter (\<lambda>(n, _). n \<in> set (split CHR '','' f)) declared)"
proof -
  from assms(2,3) have "selection ctx req = Some f" by (simp add: selection_def)
  with assms(1) show ?thesis using assms(3) by (rule init_selected)
qed

lemma init_default_fields:
  assumes "request ctx = Some req" and "\<not> truthy (query_params req ''fields'')"
    and "default_fields ctx = Some dflt"
  shows "init ctx declared =
           Inr (filter (\<lambda>(n, _). n \<in> set (split CHR '',''
                  (join '','' [dflt, case query_params req ''additional_fields'' of
                                       None \<Rightarrow> [] | Some a \<Rightarrow> a]))) declared)"
proof -
  let ?sel = "join '','' [dflt, case query_params req ''additional_fields'' of
                                  None \<Rightarrow> [] | Some a \<Rightarrow> a]"
  have "selection ctx req = Some ?sel" using assms(2,3) by (rule selection_default)
  moreover have "?sel \<noteq> []" by simp
  ultimately show ?thesis using assms(1) by (simp add: init_selected)
qed

section \<open>Splitting and joining: helper facts\<close>

lemma split_pieces: "p \<in> set (split sep s) \<Longrightarrow> sep \<notin> set p"
  by (induction s arbitrary: p) (auto split: list.splits if_splits)

lemma split_nonempty: "split sep s \<noteq> []"
  by (induction s) (auto split: list.splits)

lemma join_Cons_head: "join sep ((c # p) # ps) = c # join sep (p # ps)"
  by (cases ps) simp_all

lemma join_split: "join [sep] (split sep s) = s"
proof (induction s)
  case Nil
  then show ?case by simp
next
  case (Cons c cs)
  obtain p ps where sp: "split sep cs = p # ps"
    using split_nonempty [of sep cs] by (cases "split sep cs") auto
  with Cons show ?case by (auto simp: join_Cons_head)
qed

section \<open>The output mapping: helper facts\<close>

lemma to_representation_keys:
  "to_representation fs obj = Inr out \<Longrightarrow> map fst out = map fst fs"
  by (induction fs arbitrary: out) (auto split: sum.splits)

lemma serializer_data_keys:
  "serializer_data ctx declared obj = Inr out \<Longrightarrow>
   \<exists>fs. init ctx declared = Inr fs \<and> map fst out = map fst fs"
  by (auto simp: serializer_data_def split: sum.splits dest: to_representation_keys)

section \<open>The gradebook lookup: helper facts\<close>

lemma objects_get_none:
  assumes "\<forall>r \<in> set rows. \<not> (gb_user r = user_id u \<and> gb_course_id r = cid)"
  shows "objects_get rows u cid = Inl ObjectDoesNotExist"
proof -
  from assms have "filter (\<lambda>r. gb_user r = user_id u \<and> gb_course_id r = cid) rows = []"
    by (simp add: filter_empty_conv)
  then show ?thesis by (simp add: objects_get_def)
qed

lemma objects_get_one:
  "filter (\<lambda>r. gb_user r = user_id u \<and> gb_course_id r = cid) rows = [gb] \<Longrightarrow>
   objects_get rows u cid = Inr gb"
  by (simp add: objects_get_def)

lemma grades_without_course:
  "course_id ctx = None \<Longrightarrow>
   get_user_grades json_loads d ctx u
     = Inr [(''grade'', JNull), (''proforma_grade'', JNull), (''section_breakdown'', JNull)]"
  by (simp add: get_user_grades_def grades_dict_def)

lemma grades_keys:
  "get_user_grades json_loads d ctx u = Inr g \<Longrightarrow>
   map fst g = [''grade'', ''proforma_grade'', ''section_breakdown'']"
  by (auto simp: get_user_grades_def grades_dict_def Let_def
      split: option.splits prod.splits if_splits)

section \<open>Field selection (C1, C8, C10)\<close>

text \<open>
  C1: for every context and every declared field dict, \<^verbatim>\<open>__init__\<close> returns without an
  exception and keeps declared fields only, so the keys of an output mapping are declared
  names. When the context has no request, or the request has no \<^verbatim>\<open>fields\<close> parameter and
  the context no \<^verbatim>\<open>default_fields\<close>, every declared field remains and the output mapping has
  exactly the declared names.
\<close>

theorem output_keys_subset_declared:
  "(\<exists>fs. init ctx declared = Inr fs \<and> fst ` set fs \<subseteq> fst ` set declared) \<and>
   (serializer_data ctx declared obj = Inr out \<longrightarrow> fst ` set out \<subseteq> fst ` set declared) \<and>
   (request ctx = None \<or>
    (\<exists>req. request ctx = Some req \<and> query_params req ''fields'' = None \<and>
       default_fields ctx = None) \<longrightarrow>
    init ctx declared = Inr declared \<and>
    (serializer_data ctx declared obj = Inr out \<longrightarrow> map fst out = map fst declared))"
proof (intro conjI impI)
  show "\<exists>fs. init ctx declared = Inr fs \<and> fst ` set fs \<subseteq> fst ` set declared"
    using init_keys_subset [of ctx declared] by blast
next
  assume out: "serializer_data ctx declared obj = Inr out"
  obtain fs where fs: "init ctx declared = Inr fs" and k: "map fst out = map fst fs"
    using serializer_data_keys [OF out] by auto
  from fs have "set fs \<subseteq> set declared"
    using init_keys_subset [of ctx declared] by auto
  then have "set (map fst fs) \<subseteq> set (map fst declared)" by auto
  with k have "set (map fst out) \<subseteq> set (map fst declared)" by simp
  then show "fst ` set out \<subseteq> fst ` set declared" by simp
next
  assume "request ctx = None \<or>
    (\<exists>req. request ctx = Some req \<and> query_params req ''fields'' = None \<and>
       default_fields ctx = None)"
  then show "init ctx declared = Inr declared" by (rule init_no_selection)
next
  assume ns: "request ctx = None \<or>
    (\<exists>req. request ctx = Some req \<and> query_params req ''fields'' = None \<and>
       default_fields ctx = None)"
    and out: "serializer_data ctx declared obj = Inr out"
  from ns have "init ctx declared = Inr declared" by (rule init_no_selection)
  then show "map fst out = map fst declared"
    using serializer_data_keys [OF out] by simp
qed

text \<open>The simple serializer on a request without query parameters: all seven declared
  fields are emitted. Without a request, \<^verbatim>\<open>default_fields\<close> is not read.\<close>

theorem output_keys_subset_declared_witness:
  "init (ctx_of [] None None) SimpleUserSerializer_fields = Inr SimpleUserSerializer_fields \<and>
   init (ctx_without_request (Some ''id'') None) SimpleUserSerializer_fields
     = Inr SimpleUserSerializer_fields \<and>
   serializer_data (ctx_of [] None None) SimpleUserSerializer_fields alice =
     Inr [(''id'', JNumber 1), (''email'', JString ''alice@example.com''),
          (''username'', JString ''alice''), (''first_name'', JString ''Alice''),
          (''last_name'', JString ''A''), (''created'', JString ''2015-01-01T00:00:00Z''),
          (''is_active'', JBool True)] \<and>
   map fst SimpleUserSerializer_fields =
     [''id'', ''email'', ''username'', ''first_name'', ''last_name'', ''created'', ''is_active'']"
proof -
  let ?ctx = "ctx_of [] None None"
  let ?out = "[(''id'', JNumber 1), (''email'', JString ''alice@example.com''),
          (''username'', JString ''alice''), (''first_name'', JString ''Alice''),
          (''last_name'', JString ''A''), (''created'', JString ''2015-01-01T00:00:00Z''),
          (''is_active'', JBool True)]"
  have hyp: "request ?ctx = None \<or>
    (\<exists>req. request ?ctx = Some req \<and> query_params req ''fields'' = None \<and>
       default_fields ?ctx = None)"
    by (simp add: ctx_of_def)
  have out: "serializer_data ?ctx SimpleUserSerializer_fields alice = Inr ?out"
    by (simp add: serializer_data_def init_def selection_def ctx_of_def
        SimpleUserSerializer_fields_def alice_def)
  from output_keys_subset_declared [of ?ctx SimpleUserSerializer_fields alice ?out] hyp out
  have "init ?ctx SimpleUserSerializer_fields = Inr SimpleUserSerializer_fields"
    and "map fst ?out = map fst SimpleUserSerializer_fields"
    by blast+
  moreover have "request (ctx_without_request (Some ''id'') None) = None"
    by (simp add: ctx_without_request_def)
  with output_keys_subset_declared
         [of "ctx_without_request (Some ''id'') None" SimpleUserSerializer_fields alice ?out]
  have "init (ctx_without_request (Some ''id'') None) SimpleUserSerializer_fields
     = Inr SimpleUserSerializer_fields"
    by blast
  ultimately show ?thesis using out by simp
qed

text \<open>
  C8: under a supplied selection (the local \<^verbatim>\<open>fields\<close> is a non-empty string),
  \<^verbatim>\<open>__init__\<close> returns without an exception; a requested name that is not declared is not
  a key of the fields that remain; a declared field whose name is requested remains; and
  the keys of an output mapping are the declared names that are requested.
\<close>

theorem unknown_names_ignored:
  assumes "request ctx = Some req" and "selection ctx req = Some sel" and "sel \<noteq> []"
  shows "\<exists>fs. init ctx declared = Inr fs \<and>
           (\<forall>n. n \<in> set (split CHR '','' sel) \<and> n \<notin> fst ` set declared
                \<longrightarrow> n \<notin> fst ` set fs) \<and>
           (\<forall>n f. (n, f) \<in> set declared \<and> n \<in> set (split CHR '','' sel)
                \<longrightarrow> (n, f) \<in> set fs) \<and>
           (\<forall>out. serializer_data ctx declared obj = Inr out \<longrightarrow>
              fst ` set out = fst ` set declared \<inter> set (split CHR '','' sel))"
proof -
  let ?fs = "filter (\<lambda>(n, _). n \<in> set (split CHR '','' sel)) declared"
  have i: "init ctx declared = Inr ?fs"
    using assms by (rule init_selected)
  have "\<forall>out. serializer_data ctx declared obj = Inr out \<longrightarrow>
              fst ` set out = fst ` set declared \<inter> set (split CHR '','' sel)"
  proof (intro allI impI)
    fix out assume out: "serializer_data ctx declared obj = Inr out"
    from serializer_data_keys [OF out] i have "map fst out = map fst ?fs" by simp
    then have "set (map fst out) = set (map fst ?fs)" by simp
    then show "fst ` set out = fst ` set declared \<inter> set (split CHR '','' sel)"
      by force
  qed
  with i show ?thesis by force
qed

text \<open>The simple serializer under \<^verbatim>\<open>?fields=id,email,bogus\<close>: the unknown name raises
  nothing and is no key of the output.\<close>

theorem unknown_names_ignored_witness:
  "selection (ctx_of [(''fields'', ''id,email,bogus'')] None None)
     \<lparr>query_params = map_of [(''fields'', ''id,email,bogus'')]\<rparr> = Some ''id,email,bogus'' \<and>
   split CHR '','' ''id,email,bogus'' = [''id'', ''email'', ''bogus''] \<and>
   ''bogus'' \<notin> fst ` set SimpleUserSerializer_fields \<and>
   (\<exists>fs. init (ctx_of [(''fields'', ''id,email,bogus'')] None None) SimpleUserSerializer_fields
            = Inr fs \<and>
         ''bogus'' \<notin> fst ` set fs \<and> ''id'' \<in> fst ` set fs \<and> ''email'' \<in> fst ` set fs) \<and>
   serializer_data (ctx_of [(''fields'', ''id,email,bogus'')] None None)
       SimpleUserSerializer_fields alice
     = Inr [(''id'', JNumber 1), (''email'', JString ''alice@example.com'')] \<and>
   fst ` set SimpleUserSerializer_fields \<inter> set (split CHR '','' ''id,email,bogus'')
     = {''id'', ''email''}"
proof -
  let ?ctx = "ctx_of [(''fields'', ''id,email,bogus'')] None None"
  let ?req = "\<lparr>query_params = map_of [(''fields'', ''id,email,bogus'')]\<rparr>"
  have r: "request ?ctx = Some ?req" by (simp add: ctx_of_def)
  have s: "selection ?ctx ?req = Some ''id,email,bogus''" by (simp add: selection_def)
  have ne: "''id,email,bogus'' \<noteq> []" by simp
  have sp: "split CHR '','' ''id,email,bogus'' = [''id'', ''email'', ''bogus'']" by simp
  have b: "''bogus'' \<notin> fst ` set SimpleUserSerializer_fields"
    by (simp add: SimpleUserSerializer_fields_def)
  have d: "(''id'', \<lambda>u. Inr (JNumber (of_int (user_id u)))) \<in> set SimpleUserSerializer_fields"
    "(''email'', \<lambda>u. Inr (JString (email u))) \<in> set SimpleUserSerializer_fields"
    by (simp_all add: SimpleUserSerializer_fields_def)
  from unknown_names_ignored [OF r s ne, of SimpleUserSerializer_fields alice]
  obtain fs where fs: "init ?ctx SimpleUserSerializer_fields = Inr fs"
    and drop: "\<forall>n. n \<in> set (split CHR '','' ''id,email,bogus'') \<and>
                 n \<notin> fst ` set SimpleUserSerializer_fields \<longrightarrow> n \<notin> fst ` set fs"
    and keep: "\<forall>n f. (n, f) \<in> set SimpleUserSerializer_fields \<and>
                 n \<in> set (split CHR '','' ''id,email,bogus'') \<longrightarrow> (n, f) \<in> set fs"
    and outs: "\<forall>out. serializer_data ?ctx SimpleUserSerializer_fields alice = Inr out \<longrightarrow>
                 fst ` set out
                   = fst ` set SimpleUserSerializer_fields \<inter> set (split CHR '','' ''id,email,bogus'')"
    by blast
  from drop b sp have nb: "''bogus'' \<notin> fst ` set fs" by simp
  from keep d sp have "(''id'', \<lambda>u. Inr (JNumber (of_int (user_id u)))) \<in> set fs"
    and "(''email'', \<lambda>u. Inr (JString (email u))) \<in> set fs"
    by simp_all
  then have k: "''id'' \<in> fst ` set fs" "''email'' \<in> fst ` set fs" by force+
  have out: "serializer_data ?ctx SimpleUserSerializer_fields alice
     = Inr [(''id'', JNumber 1), (''email'', JString ''alice@example.com'')]"
    by (simp add: serializer_data_def init_def selection_def ctx_of_def pop_def
        SimpleUserSerializer_fields_def alice_def)
  from outs out
  have "fst ` set [(''id'', JNumber 1), (''email'', JString ''alice@example.com'')]
          = fst ` set SimpleUserSerializer_fields \<inter> set (split CHR '','' ''id,email,bogus'')"
    by blast
  then have ks: "fst ` set SimpleUserSerializer_fields \<inter> set (split CHR '','' ''id,email,bogus'')
          = {''id'', ''email''}"
    by simp
  from fs nb k have "\<exists>fs. init ?ctx SimpleUserSerializer_fields = Inr fs \<and>
         ''bogus'' \<notin> fst ` set fs \<and> ''id'' \<in> fst ` set fs \<and> ''email'' \<in> fst ` set fs"
    by blast
  with s sp b out ks show ?thesis by simp
qed

text \<open>
  C10: the selection is split at every comma and nothing else is removed (joining the
  pieces by commas gives the string back, blanks included, and no piece holds a comma),
  and \<^verbatim>\<open>__init__\<close> keeps exactly the declared fields whose name is one of these
  pieces as they stand: under a non-empty \<^verbatim>\<open>fields\<close> parameter the pieces of that
  parameter; when the parameter is absent or empty and the context has
  \<^verbatim>\<open>default_fields\<close>, the pieces of \<^verbatim>\<open>default_fields\<close> and \<^verbatim>\<open>additional_fields\<close> joined by a
  comma. When both are empty the selection is \<^verbatim>\<open>","\<close>, it counts as supplied, the only
  allowed name is the empty one, and a serializer whose declared names are not empty
  (field names are Python identifiers) loses every field: the output mapping is empty.
\<close>

theorem selection_split_untrimmed:
  "join '','' (split CHR '','' s) = s \<and>
   (\<forall>p \<in> set (split CHR '','' s). CHR '','' \<notin> set p) \<and>
   (request ctx = Some req \<and> query_params req ''fields'' = Some f \<and> f \<noteq> [] \<longrightarrow>
      init ctx declared = Inr (filter (\<lambda>(n, _). n \<in> set (split CHR '','' f)) declared)) \<and>
   (request ctx = Some req \<and> \<not> truthy (query_params req ''fields'') \<and>
    default_fields ctx = Some dflt \<longrightarrow>
      selection ctx req =
        Some (join '','' [dflt, case query_params req ''additional_fields'' of
                                  None \<Rightarrow> [] | Some a \<Rightarrow> a]) \<and>
      init ctx declared =
        Inr (filter (\<lambda>(n, _). n \<in> set (split CHR '',''
               (join '','' [dflt, case query_params req ''additional_fields'' of
                                    None \<Rightarrow> [] | Some a \<Rightarrow> a]))) declared)) \<and>
   (request ctx = Some req \<and> \<not> truthy (query_params req ''fields'') \<and>
    default_fields ctx = Some [] \<and>
    (query_params req ''additional_fields'' = None \<or>
     query_params req ''additional_fields'' = Some []) \<and>
    [] \<notin> fst ` set declared \<longrightarrow>
      selection ctx req = Some '','' \<and>
      set (split CHR '','' '','') = {[]} \<and>
      init ctx declared = Inr [] \<and>
      serializer_data ctx declared obj = Inr [])"
proof (intro conjI impI)
  show "join '','' (split CHR '','' s) = s" by (rule join_split)
  show "\<forall>p \<in> set (split CHR '','' s). CHR '','' \<notin> set p"
    using split_pieces by blast
next
  assume "request ctx = Some req \<and> query_params req ''fields'' = Some f \<and> f \<noteq> []"
  then show "init ctx declared = Inr (filter (\<lambda>(n, _). n \<in> set (split CHR '','' f)) declared)"
    by (simp add: init_fields_param)
next
  assume h: "request ctx = Some req \<and> \<not> truthy (query_params req ''fields'') \<and>
    default_fields ctx = Some dflt"
  then show "selection ctx req =
        Some (join '','' [dflt, case query_params req ''additional_fields'' of
                                  None \<Rightarrow> [] | Some a \<Rightarrow> a])"
    by (simp add: selection_default)
  from h show "init ctx declared =
        Inr (filter (\<lambda>(n, _). n \<in> set (split CHR '',''
               (join '','' [dflt, case query_params req ''additional_fields'' of
                                    None \<Rightarrow> [] | Some a \<Rightarrow> a]))) declared)"
    using init_default_fields [of ctx req dflt declared] by blast
next
  assume h: "request ctx = Some req \<and> \<not> truthy (query_params req ''fields'') \<and>
    default_fields ctx = Some [] \<and>
    (query_params req ''additional_fields'' = None \<or>
     query_params req ''additional_fields'' = Some []) \<and>
    [] \<notin> fst ` set declared"
  then have sel: "selection ctx req = Some '',''"
    by (auto simp: selection_default)
  show "selection ctx req = Some '',''" by (rule sel)
  show sp: "set (split CHR '','' '','') = {[]}" by simp
  from h have r: "request ctx = Some req" and ne: "[] \<notin> fst ` set declared" by simp_all
  have "init ctx declared = Inr (filter (\<lambda>(n, _). n \<in> set (split CHR '','' '','')) declared)"
    using r sel by (rule init_selected) simp
  moreover have "filter (\<lambda>(n, _). n \<in> set (split CHR '','' '','')) declared = []"
    using ne by (force simp: filter_empty_conv)
  ultimately show i: "init ctx declared = Inr []" by simp
  then show "serializer_data ctx declared obj = Inr []"
    by (simp add: serializer_data_def)
qed

text \<open>
  Under \<^verbatim>\<open>?fields=id, email\<close> the piece after the comma keeps its blank, so the simple
  serializer keeps \<^verbatim>\<open>id\<close> and drops \<^verbatim>\<open>email\<close>; with \<^verbatim>\<open>default_fields = "id"\<close> and
  \<^verbatim>\<open>?additional_fields=email\<close> it keeps both; the user serializer with
  \<^verbatim>\<open>default_fields = ""\<close> and no query parameters emits nothing.
\<close>

theorem selection_split_untrimmed_witness:
  "split CHR '','' ''id, email'' = [''id'', '' email''] \<and>
   join '','' (split CHR '','' ''id, email'') = ''id, email'' \<and>
   map fst SimpleUserSerializer_fields
     = [''id'', ''email'', ''username'', ''first_name'', ''last_name'', ''created'',
        ''is_active''] \<and>
   (\<exists>fs. init (ctx_of [(''fields'', ''id, email'')] None None) SimpleUserSerializer_fields
            = Inr fs \<and> map fst fs = [''id'']) \<and>
   serializer_data (ctx_of [(''fields'', ''id, email'')] None None)
       SimpleUserSerializer_fields alice = Inr [(''id'', JNumber 1)] \<and>
   selection (ctx_of [(''additional_fields'', ''email'')] (Some ''id'') None)
       \<lparr>query_params = map_of [(''additional_fields'', ''email'')]\<rparr> = Some ''id,email'' \<and>
   (\<exists>fs. init (ctx_of [(''additional_fields'', ''email'')] (Some ''id'') None)
            SimpleUserSerializer_fields = Inr fs \<and> map fst fs = [''id'', ''email'']) \<and>
   [] \<notin> fst ` set (UserSerializer_fields example_loads example_image_urls example_db
                      (ctx_of [] (Some []) None)) \<and>
   selection (ctx_of [] (Some []) None) \<lparr>query_params = map_of []\<rparr> = Some '','' \<and>
   init (ctx_of [] (Some []) None)
     (UserSerializer_fields example_loads example_image_urls example_db
        (ctx_of [] (Some []) None)) = Inr [] \<and>
   serializer_data (ctx_of [] (Some []) None)
     (UserSerializer_fields example_loads example_image_urls example_db
        (ctx_of [] (Some []) None)) alice = Inr []"
proof -
  let ?f = "''id, email''"
  let ?ctx1 = "ctx_of [(''fields'', ''id, email'')] None None"
  let ?req1 = "\<lparr>query_params = map_of [(''fields'', ''id, email'')]\<rparr>"
  let ?ctx2 = "ctx_of [(''additional_fields'', ''email'')] (Some ''id'') None"
  let ?req2 = "\<lparr>query_params = map_of [(''additional_fields'', ''email'')]\<rparr>"
  let ?ctx3 = "ctx_of [] (Some []) None"
  let ?req3 = "\<lparr>query_params = map_of []\<rparr>"
  let ?simple = "SimpleUserSerializer_fields"
  let ?declared = "UserSerializer_fields example_loads example_image_urls example_db ?ctx3"
  have sp: "split CHR '','' ?f = [''id'', '' email'']" by simp
  have ks: "map fst ?simple
     = [''id'', ''email'', ''username'', ''first_name'', ''last_name'', ''created'',
        ''is_active'']"
    by (simp add: SimpleUserSerializer_fields_def)
  have h1: "request ?ctx1 = Some ?req1 \<and> query_params ?req1 ''fields'' = Some ?f \<and> ?f \<noteq> []"
    by (simp add: ctx_of_def)
  have h2: "request ?ctx2 = Some ?req2 \<and> \<not> truthy (query_params ?req2 ''fields'') \<and>
    default_fields ?ctx2 = Some ''id''"
    by (simp add: ctx_of_def)
  have ne: "[] \<notin> fst ` set ?declared"
    by (simp add: UserSerializer_fields_def)
  have h3: "request ?ctx3 = Some ?req3 \<and> \<not> truthy (query_params ?req3 ''fields'') \<and>
    default_fields ?ctx3 = Some [] \<and>
    (query_params ?req3 ''additional_fields'' = None \<or>
     query_params ?req3 ''additional_fields'' = Some []) \<and>
    [] \<notin> fst ` set ?declared"
    using ne by (simp add: ctx_of_def)
  note t1 = selection_split_untrimmed [of ?f ?ctx1 ?req1 ?f ?simple "[]" alice]
  note t2 = selection_split_untrimmed [of ?f ?ctx2 ?req2 ?f ?simple "''id''" alice]
  note t3 = selection_split_untrimmed [of ?f ?ctx3 ?req3 ?f ?declared "[]" alice]
  from t1 have j: "join '','' (split CHR '','' ?f) = ?f" by blast
  from t1 h1 have i1: "init ?ctx1 ?simple
      = Inr (filter (\<lambda>(n, _). n \<in> set (split CHR '','' ?f)) ?simple)" by blast
  have m1: "map fst (filter (\<lambda>(n, _). n \<in> set (split CHR '','' ?f)) ?simple) = [''id'']"
    by (simp add: SimpleUserSerializer_fields_def)
  from m1 have e1: "\<exists>fs. init ?ctx1 ?simple = Inr fs \<and> map fst fs = [''id'']"
    unfolding i1 by (intro exI conjI) (rule refl)
  have d1: "serializer_data ?ctx1 ?simple alice = Inr [(''id'', JNumber 1)]"
    unfolding serializer_data_def i1
    by (simp add: SimpleUserSerializer_fields_def alice_def)
  from t2 h2 have s2: "selection ?ctx2 ?req2 =
        Some (join '','' [''id'', case query_params ?req2 ''additional_fields'' of
                                  None \<Rightarrow> [] | Some a \<Rightarrow> a])"
    and i2: "init ?ctx2 ?simple =
        Inr (filter (\<lambda>(n, _). n \<in> set (split CHR '',''
               (join '','' [''id'', case query_params ?req2 ''additional_fields'' of
                                    None \<Rightarrow> [] | Some a \<Rightarrow> a]))) ?simple)"
    by blast+
  from s2 have s2': "selection ?ctx2 ?req2 = Some ''id,email''" by simp
  have m2: "map fst (filter (\<lambda>(n, _). n \<in> set (split CHR '',''
               (join '','' [''id'', case query_params ?req2 ''additional_fields'' of
                                    None \<Rightarrow> [] | Some a \<Rightarrow> a]))) ?simple) = [''id'', ''email'']"
    by (simp add: SimpleUserSerializer_fields_def)
  from m2 have e2: "\<exists>fs. init ?ctx2 ?simple = Inr fs \<and> map fst fs = [''id'', ''email'']"
    unfolding i2 by (intro exI conjI) (rule refl)
  from t3 h3 have e3: "selection ?ctx3 ?req3 = Some '','' \<and> init ?ctx3 ?declared = Inr [] \<and>
      serializer_data ?ctx3 ?declared alice = Inr []" by blast
  from sp j ks e1 d1 s2' e2 ne e3 show ?thesis by blast
qed

section \<open>The user fields (C2, C6, C7)\<close>

text \<open>
  C2: for a user without a profile row, the fields \<^verbatim>\<open>city\<close>, \<^verbatim>\<open>title\<close>, \<^verbatim>\<open>country\<close>,
  \<^verbatim>\<open>full_name\<close> and \<^verbatim>\<open>profile_image\<close> of \<^verbatim>\<open>UserSerializer\<close> each give null and raise
  nothing, and the serialization of these five fields returns the five nulls.
\<close>

theorem no_profile_null_fields:
  assumes "profile u = None"
  shows "(\<forall>n \<in> set [''city'', ''title'', ''country'', ''full_name'', ''profile_image''].
            \<exists>f. map_of (UserSerializer_fields json_loads image_urls d ctx) n = Some f \<and>
                f u = Inr JNull) \<and>
         (query_params req ''fields'' = Some ''city,title,country,full_name,profile_image'' \<and>
          request ctx = Some req \<longrightarrow>
          serializer_data ctx (UserSerializer_fields json_loads image_urls d ctx) u
            = Inr [(''profile_image'', JNull), (''city'', JNull), (''title'', JNull),
                   (''country'', JNull), (''full_name'', JNull)])"
proof (intro conjI impI)
  show "\<forall>n \<in> set [''city'', ''title'', ''country'', ''full_name'', ''profile_image''].
            \<exists>f. map_of (UserSerializer_fields json_loads image_urls d ctx) n = Some f \<and>
                f u = Inr JNull"
    using assms
    by (simp add: UserSerializer_fields_def profile_source_def user_profile_def
        get_profile_image_def get_profile_image_urls_by_username_def)
next
  assume h: "query_params req ''fields'' = Some ''city,title,country,full_name,profile_image'' \<and>
          request ctx = Some req"
  then have sel: "selection ctx req = Some ''city,title,country,full_name,profile_image''"
    by (simp add: selection_def)
  have sp: "split CHR '','' ''city,title,country,full_name,profile_image''
    = [''city'', ''title'', ''country'', ''full_name'', ''profile_image'']" by simp
  from h have r: "request ctx = Some req" by simp
  have i: "init ctx (UserSerializer_fields json_loads image_urls d ctx)
    = Inr (filter (\<lambda>(n, _). n \<in> set (split CHR '','' ''city,title,country,full_name,profile_image''))
         (UserSerializer_fields json_loads image_urls d ctx))"
    using r sel by (rule init_selected) simp
  show "serializer_data ctx (UserSerializer_fields json_loads image_urls d ctx) u
            = Inr [(''profile_image'', JNull), (''city'', JNull), (''title'', JNull),
                   (''country'', JNull), (''full_name'', JNull)]"
    unfolding serializer_data_def i sp using assms
    by (simp add: UserSerializer_fields_def profile_source_def user_profile_def
        get_profile_image_def get_profile_image_urls_by_username_def)
qed

text \<open>
  The user alice has no profile: her five profile fields are null.
\<close>

theorem no_profile_null_fields_witness:
  "profile alice = None \<and>
   get_profile_image example_image_urls alice = Inr JNull \<and>
   profile_source city alice = Inr JNull \<and>
   serializer_data (ctx_of [(''fields'', ''city,title,country,full_name,profile_image'')] None None)
     (UserSerializer_fields example_loads example_image_urls example_db
        (ctx_of [(''fields'', ''city,title,country,full_name,profile_image'')] None None)) alice
     = Inr [(''profile_image'', JNull), (''city'', JNull), (''title'', JNull),
            (''country'', JNull), (''full_name'', JNull)]"
proof -
  let ?ctx = "ctx_of [(''fields'', ''city,title,country,full_name,profile_image'')] None None"
  let ?req = "\<lparr>query_params = map_of [(''fields'', ''city,title,country,full_name,profile_image'')]\<rparr>"
  let ?declared = "UserSerializer_fields example_loads example_image_urls example_db ?ctx"
  have p: "profile alice = None" by (simp add: alice_def)
  have h: "query_params ?req ''fields'' = Some ''city,title,country,full_name,profile_image'' \<and>
          request ?ctx = Some ?req"
    by (simp add: ctx_of_def)
  note t = no_profile_null_fields [OF p, of example_loads example_image_urls example_db ?ctx ?req]
  from t have all: "\<forall>n \<in> set [''city'', ''title'', ''country'', ''full_name'', ''profile_image''].
            \<exists>f. map_of ?declared n = Some f \<and> f alice = Inr JNull" by blast
  from all have "\<exists>f. map_of ?declared ''profile_image'' = Some f \<and> f alice = Inr JNull"
    by simp
  then have im: "get_profile_image example_image_urls alice = Inr JNull"
    by (simp add: UserSerializer_fields_def)
  from all have "\<exists>f. map_of ?declared ''city'' = Some f \<and> f alice = Inr JNull"
    by simp
  then have ci: "profile_source city alice = Inr JNull"
    by (simp add: UserSerializer_fields_def)
  from t h have "serializer_data ?ctx ?declared alice
     = Inr [(''profile_image'', JNull), (''city'', JNull), (''title'', JNull),
            (''country'', JNull), (''full_name'', JNull)]" by blast
  with p im ci show ?thesis by simp
qed

text \<open>
  C7: \<^verbatim>\<open>get_courses_enrolled\<close> returns the attached \<^verbatim>\<open>courses_enrolled\<close> attribute when the
  user record has one, and the number of the user's enrollment rows otherwise; with no
  attached count and two enrollment rows the result is 2.
\<close>

theorem courses_enrolled_attached_or_counted:
  "(courses_enrolled u = Some n \<longrightarrow> get_courses_enrolled u = n) \<and>
   (courses_enrolled u = None \<longrightarrow>
      get_courses_enrolled u = int (length (courseenrollment_set u))) \<and>
   (courses_enrolled u = None \<and> length (courseenrollment_set u) = 2 \<longrightarrow>
      get_courses_enrolled u = 2)"
  by (simp add: get_courses_enrolled_def)

text \<open>
  The user alice has two enrollments and no attached count; bob has the count 7 attached
  and one enrollment row.
\<close>

theorem courses_enrolled_attached_or_counted_witness:
  "courses_enrolled alice = None \<and> length (courseenrollment_set alice) = 2 \<and>
   get_courses_enrolled alice = 2 \<and>
   courses_enrolled bob = Some 7 \<and> length (courseenrollment_set bob) = 1 \<and>
   get_courses_enrolled bob = 7"
proof -
  have a: "courses_enrolled alice = None \<and> length (courseenrollment_set alice) = 2"
    by (simp add: alice_def)
  have b: "courses_enrolled bob = Some 7" and b': "length (courseenrollment_set bob) = 1"
    by (simp_all add: bob_def)
  from courses_enrolled_attached_or_counted [of alice 0] a
  have ra: "get_courses_enrolled alice = 2" by blast
  from courses_enrolled_attached_or_counted [of bob 7] b
  have rb: "get_courses_enrolled bob = 7" by blast
  from a b b' ra rb show ?thesis by blast
qed

text \<open>
  C6: \<^verbatim>\<open>get_user_roles\<close> returns each role name once; without \<^verbatim>\<open>course_id\<close> in the
  context the names are those of all role rows of the user, with it those of the user's
  rows of that course.
\<close>

theorem user_roles_distinct:
  "distinct (get_user_roles d ctx u) \<and>
   (course_id ctx = None \<longrightarrow>
      set (get_user_roles d ctx u)
        = car_role ` {r \<in> set (course_access_roles d). car_user r = user_id u}) \<and>
   (course_id ctx = Some cid \<longrightarrow>
      set (get_user_roles d ctx u)
        = car_role ` {r \<in> set (course_access_roles d).
                        car_user r = user_id u \<and> car_course_id r = cid})"
  by (auto simp: get_user_roles_def Let_def)

text \<open>
  The user alice is staff in two courses and instructor in one: two roles without a course
  context, one in the course c1.
\<close>

theorem user_roles_distinct_witness:
  "get_user_roles example_db (ctx_of [] None None) alice = [''staff'', ''instructor''] \<and>
   car_role ` {r \<in> set (course_access_roles example_db). car_user r = user_id alice}
     = {''staff'', ''instructor''} \<and>
   get_user_roles example_db (ctx_of [] None (Some ''c1'')) alice = [''staff''] \<and>
   car_role ` {r \<in> set (course_access_roles example_db).
                 car_user r = user_id alice \<and> car_course_id r = ''c1''} = {''staff''}"
proof -
  have c0: "course_id (ctx_of [] None None) = None"
    and c1: "course_id (ctx_of [] None (Some ''c1'')) = Some ''c1''"
    by (simp_all add: ctx_of_def)
  have r0: "get_user_roles example_db (ctx_of [] None None) alice = [''staff'', ''instructor'']"
    by (simp add: get_user_roles_def example_db_def ctx_of_def alice_def)
  have r1: "get_user_roles example_db (ctx_of [] None (Some ''c1'')) alice = [''staff'']"
    by (simp add: get_user_roles_def example_db_def ctx_of_def alice_def)
  from user_roles_distinct [of example_db "ctx_of [] None None" alice] c0
  have "set (get_user_roles example_db (ctx_of [] None None) alice)
        = car_role ` {r \<in> set (course_access_roles example_db). car_user r = user_id alice}"
    by blast
  with r0 have s0: "car_role ` {r \<in> set (course_access_roles example_db). car_user r = user_id alice}
     = {''staff'', ''instructor''}" by auto
  from user_roles_distinct [of example_db "ctx_of [] None (Some ''c1'')" alice "''c1''"] c1
  have "set (get_user_roles example_db (ctx_of [] None (Some ''c1'')) alice)
        = car_role ` {r \<in> set (course_access_roles example_db).
                        car_user r = user_id alice \<and> car_course_id r = ''c1''}"
    by blast
  with r1 have s1: "car_role ` {r \<in> set (course_access_roles example_db).
                 car_user r = user_id alice \<and> car_course_id r = ''c1''} = {''staff''}" by auto
  from r0 s0 r1 s1 show ?thesis by blast
qed

section \<open>The grades (C3, C4, C5, C9)\<close>

text \<open>
  C4: with a course in the context and no gradebook row of the user in that course,
  \<^verbatim>\<open>get_user_grades\<close> returns the mapping of \<^verbatim>\<open>grade\<close>, \<^verbatim>\<open>proforma_grade\<close> and
  \<^verbatim>\<open>section_breakdown\<close> to null, and raises nothing.
\<close>

theorem no_gradebook_row_all_null:
  assumes "course_id ctx = Some cid"
    and "\<forall>r \<in> set (student_gradebooks d). \<not> (gb_user r = user_id u \<and> gb_course_id r = cid)"
  shows "get_user_grades json_loads d ctx u
         = Inr [(''grade'', JNull), (''proforma_grade'', JNull), (''section_breakdown'', JNull)]"
  using assms(1) objects_get_none [OF assms(2)]
  by (simp add: get_user_grades_def try_body_def grades_dict_def)

text \<open>
  The user alice has no gradebook row in the course c9.
\<close>

theorem no_gradebook_row_all_null_witness:
  "course_id (ctx_of [] None (Some ''c9'')) = Some ''c9'' \<and>
   objects_get (student_gradebooks example_db) alice ''c9'' = Inl ObjectDoesNotExist \<and>
   get_user_grades example_loads example_db (ctx_of [] None (Some ''c9'')) alice
     = Inr [(''grade'', JNull), (''proforma_grade'', JNull), (''section_breakdown'', JNull)]"
proof -
  have c: "course_id (ctx_of [] None (Some ''c9'')) = Some ''c9''"
    by (simp add: ctx_of_def)
  have n: "\<forall>r \<in> set (student_gradebooks example_db).
             \<not> (gb_user r = user_id alice \<and> gb_course_id r = ''c9'')"
    by (simp add: example_db_def)
  have g: "objects_get (student_gradebooks example_db) alice ''c9'' = Inl ObjectDoesNotExist"
    by (simp add: objects_get_def example_db_def alice_def)
  from c g no_gradebook_row_all_null [OF c n, of example_loads] show ?thesis by simp
qed

text \<open>
  A breakdown that parses to a JSON object without the key \<^verbatim>\<open>section_breakdown\<close> gives
  the two grades of the row and a null \<^verbatim>\<open>section_breakdown\<close>.
\<close>

lemma breakdown_object_without_key:
  assumes "course_id ctx = Some cid"
    and "filter (\<lambda>r. gb_user r = user_id u \<and> gb_course_id r = cid) (student_gradebooks d) = [gb]"
    and "json_loads (gb_grade_summary gb) = Inr (JObject items)"
    and "''section_breakdown'' \<notin> fst ` set items"
  shows "get_user_grades json_loads d ctx u
         = Inr [(''grade'', JNumber (gb_grade gb)),
                (''proforma_grade'', JNumber (gb_proforma_grade gb)),
                (''section_breakdown'', JNull)]"
  using assms(1,3,4) objects_get_one [OF assms(2)]
  by (simp add: get_user_grades_def try_body_def grades_dict_def)

text \<open>
  C5: a breakdown that parses and has no key \<^verbatim>\<open>section_breakdown\<close> does not always give
  the two grades and a null \<^verbatim>\<open>section_breakdown\<close>. The row of alice in the course c4 has
  the breakdown text \<^verbatim>\<open>5\<close>, which parses to a number; the test
  \<^verbatim>\<open>"section_breakdown" in grade_summary\<close> raises \<^verbatim>\<open>TypeError\<close>, which the \<^verbatim>\<open>except\<close> clause
  does not catch, and the method returns nothing.
\<close>

theorem breakdown_number_without_key_raises:
  "objects_get (student_gradebooks example_db) alice ''c4''
     = Inr \<lparr>gb_user = 1, gb_course_id = ''c4'', gb_grade = 0.6, gb_proforma_grade = 0.5,
           gb_grade_summary = ''5''\<rparr> \<and>
   example_loads ''5'' = Inr (JNumber 5) \<and>
   contains ''section_breakdown'' (JNumber 5) = Inl TypeError \<and>
   get_user_grades example_loads example_db (ctx_of [] None (Some ''c4'')) alice = Inl TypeError"
  by (simp add: get_user_grades_def try_body_def grades_dict_def objects_get_def
      example_db_def example_loads_def ctx_of_def alice_def)

text \<open>
  C3, as the code has it: with the gradebook row of the user in the course of the
  context, whose breakdown does not parse (\<^verbatim>\<open>json.loads\<close> raises \<^verbatim>\<open>ValueError\<close>),
  \<^verbatim>\<open>get_user_grades\<close> raises nothing and returns a null \<^verbatim>\<open>section_breakdown\<close>, with the
  two grades of the row: they are assigned before the breakdown is parsed.
\<close>

theorem malformed_breakdown_keeps_grades:
  assumes "course_id ctx = Some cid"
    and "filter (\<lambda>r. gb_user r = user_id u \<and> gb_course_id r = cid) (student_gradebooks d) = [gb]"
    and "json_loads (gb_grade_summary gb) = Inl ValueError"
  shows "get_user_grades json_loads d ctx u
         = Inr [(''grade'', JNumber (gb_grade gb)),
                (''proforma_grade'', JNumber (gb_proforma_grade gb)),
                (''section_breakdown'', JNull)]"
  using assms(1,3) objects_get_one [OF assms(2)]
  by (simp add: get_user_grades_def try_body_def grades_dict_def)

text \<open>
  The row of alice in the course c1 has the breakdown text \<^verbatim>\<open>{not json\<close>.
\<close>

theorem malformed_breakdown_keeps_grades_witness:
  "objects_get (student_gradebooks example_db) alice ''c1''
     = Inr \<lparr>gb_user = 1, gb_course_id = ''c1'', gb_grade = 0.9, gb_proforma_grade = 0.8,
           gb_grade_summary = ''{not json''\<rparr> \<and>
   example_loads ''{not json'' = Inl ValueError \<and>
   get_user_grades example_loads example_db (ctx_of [] None (Some ''c1'')) alice
     = Inr [(''grade'', JNumber 0.9), (''proforma_grade'', JNumber 0.8),
            (''section_breakdown'', JNull)]"
proof -
  let ?gb = "\<lparr>gb_user = 1, gb_course_id = ''c1'', gb_grade = 0.9, gb_proforma_grade = 0.8,
           gb_grade_summary = ''{not json''\<rparr>"
  have c: "course_id (ctx_of [] None (Some ''c1'')) = Some ''c1''"
    by (simp add: ctx_of_def)
  have f: "filter (\<lambda>r. gb_user r = user_id alice \<and> gb_course_id r = ''c1'')
             (student_gradebooks example_db) = [?gb]"
    by (simp add: example_db_def alice_def)
  have l: "example_loads (gb_grade_summary ?gb) = Inl ValueError"
    by (simp add: example_loads_def)
  have g: "objects_get (student_gradebooks example_db) alice ''c1'' = Inr ?gb"
    using f by (rule objects_get_one)
  from malformed_breakdown_keeps_grades [where json_loads = example_loads, OF c f l] g l
  show ?thesis by simp
qed

text \<open>
  C3, as the claim has it, fails on that row: the breakdown does not parse, and the
  grade and the proforma grade of the result are 0.9 and 0.8, not null.
\<close>

theorem malformed_breakdown_counterexample:
  "course_id (ctx_of [] None (Some ''c1'')) = Some ''c1'' \<and>
   objects_get (student_gradebooks example_db) alice ''c1''
     = Inr \<lparr>gb_user = 1, gb_course_id = ''c1'', gb_grade = 0.9, gb_proforma_grade = 0.8,
           gb_grade_summary = ''{not json''\<rparr> \<and>
   example_loads ''{not json'' = Inl ValueError \<and>
   get_user_grades example_loads example_db (ctx_of [] None (Some ''c1'')) alice
     = Inr [(''grade'', JNumber 0.9), (''proforma_grade'', JNumber 0.8),
            (''section_breakdown'', JNull)] \<and>
   get_user_grades example_loads example_db (ctx_of [] None (Some ''c1'')) alice
     \<noteq> Inr [(''grade'', JNull), (''proforma_grade'', JNull), (''section_breakdown'', JNull)]"
  by (simp add: get_user_grades_def try_body_def grades_dict_def objects_get_def
      example_db_def example_loads_def ctx_of_def alice_def)

text \<open>
  C9: \<^verbatim>\<open>get_user_grades\<close> does not return a mapping for every input. The row of alice in
  the course c3 has the breakdown text \<^verbatim>\<open>null\<close>, which parses to \<^verbatim>\<open>None\<close>; the test
  \<^verbatim>\<open>"section_breakdown" in grade_summary\<close> raises \<^verbatim>\<open>TypeError\<close>, which the \<^verbatim>\<open>except\<close> clause
  does not catch.
\<close>

theorem grades_null_breakdown_raises:
  "objects_get (student_gradebooks example_db) alice ''c3''
     = Inr \<lparr>gb_user = 1, gb_course_id = ''c3'', gb_grade = 0.7, gb_proforma_grade = 0.6,
           gb_grade_summary = ''null''\<rparr> \<and>
   example_loads ''null'' = Inr JNull \<and>
   get_user_grades example_loads example_db (ctx_of [] None (Some ''c3'')) alice = Inl TypeError"
  by (simp add: get_user_grades_def try_body_def grades_dict_def objects_get_def
      example_db_def example_loads_def ctx_of_def alice_def)

end
